theory Spec2Isabelle
  imports Main "HOL-Library.Sublist"
begin

section \<open>The number form of the Parent component\<close>

text \<open>
  The development follows \<^verbatim>\<open>handleNumberChange\<close> of the \<^verbatim>\<open>Parent\<close> component:
  \<^verbatim>\<open>
  const [number, setNumber] = useState(0);
  const [isInvalidNumber, setIsInvalidNumber] = useState(null);

  function handleNumberChange(event) {
    const newNumber = parseInt(event.target.value);
    if (newNumber >= 0 && newNumber <= 5) {
      setNumber(newNumber);
      setIsInvalidNumber(null);
    } else {
      setIsInvalidNumber(`${newNumber} is not a valid number!`)
    }
  }
  \<close>
  The handler calls three operations of the language: \<^verbatim>\<open>parseInt\<close>, the relational
  operators on Numbers, and the conversion of a Number to a String inside the template
  literal. They are modelled first, after the ECMAScript definitions of these operations.
\<close>

subsection \<open>Numbers\<close>

text \<open>
  \<^verbatim>\<open>parseInt\<close> returns a Number, an IEEE 754 double. Every value it can return is NaN, a
  zero, an infinity or a finite double whose value is a non-zero integer, so a finite
  double is represented by its exact integer value: \<open>Fin i\<close> is the double of value \<open>i\<close>,
  \<open>Fin 0\<close> is \<open>+0\<close> and \<open>NegZero\<close> is \<open>-0\<close>.
\<close>

datatype jsnum = NaN | NegZero | Fin int | PosInfinity | NegInfinity

text \<open>The mathematical value of a finite Number; NaN and the infinities have none.\<close>

fun mathValue :: "jsnum \<Rightarrow> int option" where
  "mathValue (Fin i) = Some i"
| "mathValue NegZero = Some 0"
| "mathValue NaN = None"
| "mathValue PosInfinity = None"
| "mathValue NegInfinity = None"

text \<open>The number of binary digits of a natural number.\<close>

fun numBits :: "nat \<Rightarrow> nat" where
  "numBits m = (if m = 0 then 0 else Suc (numBits (m div 2)))"

declare numBits.simps [simp del]

text \<open>
  The double nearest to a natural number \<open>m\<close>, ties to the even significand: the
  significand keeps 53 binary digits and \<open>e\<close> counts the digits dropped, none for a
  number of at most 53 binary digits. \<open>None\<close> is the overflow to infinity.
\<close>

definition toDouble :: "nat \<Rightarrow> nat option" where
  "toDouble m =
     (let e = numBits m - 53;
          q = m div 2 ^ e;
          r = m mod 2 ^ e;
          q' = (if 2 ^ e < 2 * r \<or> (2 * r = 2 ^ e \<and> odd q) then q + 1 else q);
          v = q' * 2 ^ e
      in if 2 ^ 1024 \<le> v then None else Some v)"

text \<open>The Number of value \<open>m\<close> or \<open>- m\<close>, for \<open>m > 0\<close>.\<close>

definition numberOf :: "bool \<Rightarrow> nat \<Rightarrow> jsnum" where
  "numberOf negative m =
     (case toDouble m of
        None \<Rightarrow> if negative then NegInfinity else PosInfinity
      | Some v \<Rightarrow> Fin (if negative then - int v else int v))"

subsection \<open>Relational operators\<close>

text \<open>
  \<^verbatim>\<open>Number::lessThan\<close>: \<open>None\<close> is the result \<^verbatim>\<open>undefined\<close>, which a comparison with
  NaN gives. The equations are tried in this order.
\<close>

fun lessThan_num :: "jsnum \<Rightarrow> jsnum \<Rightarrow> bool option" where
  "lessThan_num NaN y = None"
| "lessThan_num x NaN = None"
| "lessThan_num PosInfinity y = Some False"
| "lessThan_num x PosInfinity = Some True"
| "lessThan_num x NegInfinity = Some False"
| "lessThan_num NegInfinity y = Some True"
| "lessThan_num NegZero NegZero = Some False"
| "lessThan_num NegZero (Fin j) = Some (0 < j)"
| "lessThan_num (Fin i) NegZero = Some (i < 0)"
| "lessThan_num (Fin i) (Fin j) = Some (i < j)"

text \<open>\<^verbatim>\<open>a >= b\<close> is false when \<^verbatim>\<open>a < b\<close> is true or undefined, and true otherwise.\<close>

definition greaterEq :: "jsnum \<Rightarrow> jsnum \<Rightarrow> bool" where
  "greaterEq a b = (case lessThan_num a b of Some False \<Rightarrow> True | _ \<Rightarrow> False)"

text \<open>\<^verbatim>\<open>a <= b\<close> is false when \<^verbatim>\<open>b < a\<close> is true or undefined, and true otherwise.\<close>

definition lessEq :: "jsnum \<Rightarrow> jsnum \<Rightarrow> bool" where
  "lessEq a b = (case lessThan_num b a of Some False \<Rightarrow> True | _ \<Rightarrow> False)"

subsection \<open>Decimal numerals\<close>

text \<open>The character of a digit \<open>d < 10\<close>.\<close>

definition digitChar :: "nat \<Rightarrow> char" where
  "digitChar d = ''0123456789'' ! d"

fun decimal :: "nat \<Rightarrow> string" where
  "decimal n = (if n < 10 then [digitChar n] else decimal (n div 10) @ [digitChar (n mod 10)])"

declare decimal.simps [simp del]

text \<open>The decimal string of an integer, the \<^verbatim>\<open>str(n)\<close> of the specification.\<close>

definition decimalString :: "int \<Rightarrow> string" where
  "decimalString n = (if n < 0 then CHR ''-'' # decimal (nat (- n)) else decimal (nat n))"

subsection \<open>Number to String\<close>

text \<open>
  \<^verbatim>\<open>Number::toString\<close> prints the digits of the integer with the fewest significant
  digits that reads back as the same double; \<open>readsAs v x\<close> says that \<open>x\<close> reads back
  as the double of value \<open>v\<close>.
\<close>

definition readsAs :: "nat \<Rightarrow> nat \<Rightarrow> bool" where
  "readsAs v x = (toDouble x = Some v)"

text \<open>
  Of the multiple \<open>lo\<close> of a power of ten below \<open>v\<close> and the next multiple \<open>hi\<close>, the
  one that reads back as \<open>v\<close>; where both do, the nearer, and of two equally near the
  one whose digit string is even.
\<close>

definition pick :: "nat \<Rightarrow> nat \<Rightarrow> nat \<Rightarrow> bool \<Rightarrow> nat option" where
  "pick v lo hi evenLo =
     (if readsAs v lo \<and> readsAs v hi
      then Some (if v - lo < hi - v \<or> (v - lo = hi - v \<and> evenLo) then lo else hi)
      else if readsAs v lo then Some lo
      else if readsAs v hi then Some hi
      else None)"

text \<open>
  \<open>shortestFrom v e\<close> tries the multiples of \<open>10 ^ e\<close> next to \<open>v\<close>, from the largest
  exponent down, so that the first found has the fewest significant digits. With no
  digit dropped the value itself is left.
\<close>

fun shortestFrom :: "nat \<Rightarrow> nat \<Rightarrow> nat" where
  "shortestFrom v e =
     (if e = 0 then v
      else case pick v (v div 10 ^ e * 10 ^ e) ((v div 10 ^ e + 1) * 10 ^ e) (even (v div 10 ^ e)) of
             Some x \<Rightarrow> x
           | None \<Rightarrow> shortestFrom v (e - 1))"

declare shortestFrom.simps [simp del]

definition shortest :: "nat \<Rightarrow> nat" where
  "shortest v = shortestFrom v (length (decimal v) - 1)"

definition stripTrailingZeros :: "string \<Rightarrow> string" where
  "stripTrailingZeros ds = rev (dropWhile (\<lambda>c. c = CHR ''0'') (rev ds))"

text \<open>
  A positive integer value of up to 21 digits is printed in full, a longer one in
  exponent notation: the first significant digit, a point and the other significant
  digits if there are any, and the exponent.
\<close>

definition positiveToString :: "nat \<Rightarrow> string" where
  "positiveToString v =
     (let ds = decimal (shortest v); n = length ds
      in if n \<le> 21 then ds
         else (case stripTrailingZeros ds of
                 [] \<Rightarrow> ds
               | d # rest \<Rightarrow>
                   d # (if rest = [] then [] else CHR ''.'' # rest) @ ''e+'' @ decimal (n - 1)))"

fun numberToString :: "jsnum \<Rightarrow> string" where
  "numberToString NaN = ''NaN''"
| "numberToString NegZero = ''0''"
| "numberToString (Fin i) =
     (if i = 0 then ''0''
      else if i < 0 then CHR ''-'' # positiveToString (nat (- i))
      else positiveToString (nat i))"
| "numberToString PosInfinity = ''Infinity''"
| "numberToString NegInfinity = ''-Infinity''"

declare numberToString.simps [simp del]

subsection \<open>parseInt\<close>

text \<open>
  Strings are lists of 8-bit characters, so the white space of the language is here
  its part below code unit 256: TAB, LF, VT, FF, CR, SP and NBSP.
\<close>

definition isStrWhiteSpaceChar :: "char \<Rightarrow> bool" where
  "isStrWhiteSpaceChar c = ((of_char c :: nat) \<in> {9, 10, 11, 12, 13, 32, 160})"

text \<open>The value of a digit: \<^verbatim>\<open>0\<close> to \<^verbatim>\<open>9\<close>, then the letters of either case from 10 on.\<close>

definition digitValue :: "char \<Rightarrow> nat option" where
  "digitValue c =
     (let u = (of_char c :: nat)
      in if 48 \<le> u \<and> u \<le> 57 then Some (u - 48)
         else if 97 \<le> u \<and> u \<le> 122 then Some (u - 87)
         else if 65 \<le> u \<and> u \<le> 90 then Some (u - 55)
         else None)"

definition isRadixDigit :: "nat \<Rightarrow> char \<Rightarrow> bool" where
  "isRadixDigit R c = (case digitValue c of Some d \<Rightarrow> d < R | None \<Rightarrow> False)"

definition digitsValue :: "nat \<Rightarrow> string \<Rightarrow> nat" where
  "digitsValue R Z =
     foldl (\<lambda>a c. a * R + (case digitValue c of Some d \<Rightarrow> d | None \<Rightarrow> 0)) 0 Z"

text \<open>The steps of \<^verbatim>\<open>parseInt\<close> before the digits: leading white space is dropped
  (\<^verbatim>\<open>TrimString\<close> at the start), a leading \<^verbatim>\<open>-\<close> makes the sign negative, a leading
  \<^verbatim>\<open>+\<close> or \<^verbatim>\<open>-\<close> is removed, and what is left is tested for the prefix \<^verbatim>\<open>0x\<close> or
  \<^verbatim>\<open>0X\<close>.\<close>

definition trimStart :: "string \<Rightarrow> string" where
  "trimStart string = dropWhile isStrWhiteSpaceChar string"

definition isNegative :: "string \<Rightarrow> bool" where
  "isNegative S = (case S of [] \<Rightarrow> False | c # _ \<Rightarrow> c = CHR ''-'')"

definition dropSign :: "string \<Rightarrow> string" where
  "dropSign S = (case S of [] \<Rightarrow> [] | c # cs \<Rightarrow> if c = CHR ''+'' \<or> c = CHR ''-'' then cs else S)"

definition hasHexPrefix :: "string \<Rightarrow> bool" where
  "hasHexPrefix S =
     (case S of a # b # _ \<Rightarrow> a = CHR ''0'' \<and> (b = CHR ''x'' \<or> b = CHR ''X'') | _ \<Rightarrow> False)"

text \<open>
  \<^verbatim>\<open>parseInt(string)\<close> with no radix: the prefix \<^verbatim>\<open>0x\<close> or \<^verbatim>\<open>0X\<close> selects radix 16 and
  any other text radix 10, and the longest run of digits of the radix is the numeral
  \<open>Z\<close>. No digit gives NaN, the value zero gives a zero of the sign read, and any other
  value is rounded to a double. (For a decimal numeral of more than 20 significant
  digits the language lets an implementation read the digits after the 20th as zeros;
  the exact value is taken here.)
\<close>

definition parseInt :: "string \<Rightarrow> jsnum" where
  "parseInt string =
     (let S = trimStart string;
          negative = isNegative S;
          S1 = dropSign S;
          R = (if hasHexPrefix S1 then 16 else 10);
          S2 = (if hasHexPrefix S1 then drop 2 S1 else S1);
          Z = takeWhile (isRadixDigit R) S2
      in if Z = [] then NaN
         else let mathInt = digitsValue R Z
              in if mathInt = 0 then (if negative then NegZero else Fin 0)
                 else numberOf negative mathInt)"

subsection \<open>The state of Parent and the handler\<close>

record parent =
  firstName :: string
  lastName :: string
  number :: jsnum
  isInvalidNumber :: "string option"

text \<open>The initial values given to \<^verbatim>\<open>useState\<close>; \<open>None\<close> is \<^verbatim>\<open>null\<close>.\<close>

definition Parent :: parent where
  "Parent = \<lparr>firstName = ''Andy'', lastName = ''Dandy'', number = Fin 0, isInvalidNumber = None\<rparr>"

text \<open>
  \<^verbatim>\<open>handleNumberChange\<close>, from the text \<^verbatim>\<open>event.target.value\<close> of the input and the state
  to the state after the setters have run.
\<close>

definition handleNumberChange :: "string \<Rightarrow> parent \<Rightarrow> parent" where
  "handleNumberChange targetValue st =
     (let newNumber = parseInt targetValue
      in if greaterEq newNumber (Fin 0) \<and> lessEq newNumber (Fin 5)
         then st\<lparr>number := newNumber, isInvalidNumber := None\<rparr>
         else st\<lparr>isInvalidNumber := Some (numberToString newNumber @ '' is not a valid number!'')\<rparr>)"

text \<open>
  The specification calls the handler \<^verbatim>\<open>attemptUpdate\<close> and names the branch taken its
  outcome. The handler itself returns nothing, so the outcome is paired here with the
  state the handler leaves.
\<close>

datatype outcome = Accepted jsnum | Rejected string

definition attemptUpdate :: "string \<Rightarrow> parent \<Rightarrow> outcome \<times> parent" where
  "attemptUpdate rawText st =
     (let newNumber = parseInt rawText
      in (if greaterEq newNumber (Fin 0) \<and> lessEq newNumber (Fin 5)
          then Accepted newNumber
          else Rejected (numberToString newNumber @ '' is not a valid number!''),
          handleNumberChange rawText st))"

text \<open>
  The handler reads its text in two steps that can raise: \<^verbatim>\<open>event.target.value\<close> raises
  a TypeError when \<^verbatim>\<open>event.target\<close> is null or undefined, and \<^verbatim>\<open>parseInt\<close> first
  converts its argument to a string, which raises a TypeError for a Symbol. In a change
  event \<open>target = None\<close> is the missing target and \<open>target = Some v\<close> a target whose
  \<^verbatim>\<open>value\<close> is \<open>v\<close>. Of the values of the language the strings, \<^verbatim>\<open>undefined\<close>, \<^verbatim>\<open>null\<close>
  and the Symbols are told apart.
\<close>

datatype exception = TypeError

datatype jsvalue = VUndefined | VNull | VString string | VSymbol

record changeEvent =
  target :: "jsvalue option"

definition ToString :: "jsvalue \<Rightarrow> exception + string" where
  "ToString v =
     (case v of
        VUndefined \<Rightarrow> Inr ''undefined''
      | VNull \<Rightarrow> Inr ''null''
      | VString s \<Rightarrow> Inr s
      | VSymbol \<Rightarrow> Inl TypeError)"

text \<open>
  The handler on a change event: the exception raised, or the state that
  \<open>handleNumberChange\<close> leaves on the text read from the event.
\<close>

definition handleNumberChange_event :: "changeEvent \<Rightarrow> parent \<Rightarrow> exception + parent" where
  "handleNumberChange_event event st =
     (case target event of
        None \<Rightarrow> Inl TypeError
      | Some v \<Rightarrow>
          (case ToString v of
             Inl e \<Rightarrow> Inl e
           | Inr string \<Rightarrow> Inr (handleNumberChange string st)))"

subsection \<open>Notions of the specification\<close>

text \<open>The closed range \<open>[0, 5]\<close> of the numeric value, on mathematical values.\<close>

definition inRange :: "jsnum \<Rightarrow> bool" where
  "inRange x = (case mathValue x of Some i \<Rightarrow> 0 \<le> i \<and> i \<le> 5 | None \<Rightarrow> False)"

text \<open>
  The state after a sequence of change events, from the initial state.
\<close>

definition run :: "string list \<Rightarrow> parent" where
  "run events = foldl (\<lambda>st rawText. handleNumberChange rawText st) Parent events"

text \<open>
  The leading integer of a text in the words of the specification (``parse leading
  integer, ignore trailing garbage''): after leading white space and a sign, the
  longest run of decimal digits, read in base ten; \<open>None\<close> when there is no digit.
\<close>

definition spec_leadingInteger :: "string \<Rightarrow> int option" where
  "spec_leadingInteger rawText =
     (let S = trimStart rawText;
          Z = takeWhile (isRadixDigit 10) (dropSign S)
      in if Z = [] then None
         else Some (if isNegative S then - int (digitsValue 10 Z) else int (digitsValue 10 Z)))"







section \<open>Properties of the operations\<close>

subsection \<open>Binary length and rounding\<close>

lemma numBits_le: "m < 2 ^ k \<Longrightarrow> numBits m \<le> k"
proof (induction k arbitrary: m)
  case 0
  then show ?case by (simp add: numBits.simps)
next
  case (Suc k)
  have "m div 2 < 2 ^ k" using Suc.prems by simp
  then have "numBits (m div 2) \<le> k" by (rule Suc.IH)
  then show ?case by (subst numBits.simps) simp
qed

lemma numBits_gt: "2 ^ k \<le> m \<Longrightarrow> k < numBits m"
proof (induction k arbitrary: m)
  case 0
  then show ?case by (subst numBits.simps) simp
next
  case (Suc k)
  have "2 ^ k \<le> m div 2" using Suc.prems by simp
  then have "k < numBits (m div 2)" by (rule Suc.IH)
  moreover have "m \<noteq> 0"
  proof
    assume "m = 0"
    then show False using Suc.prems by simp
  qed
  ultimately show ?case by (subst numBits.simps) simp
qed

lemma numBits_lower: "0 < m \<Longrightarrow> 2 ^ (numBits m - 1) \<le> m"
proof (induction m rule: numBits.induct)
  case (1 m)
  show ?case
  proof (cases "m div 2 = 0")
    case True
    then have "numBits (m div 2) = 0" by (simp add: numBits.simps)
    then have "numBits m = 1" using "1.prems" by (subst numBits.simps) simp
    then show ?thesis using "1.prems" by simp
  next
    case False
    then have pos: "0 < m div 2" by simp
    have ih: "2 ^ (numBits (m div 2) - 1) \<le> m div 2" using "1.IH" "1.prems" pos by simp
    have nb: "numBits m = Suc (numBits (m div 2))" using "1.prems" by (subst numBits.simps) simp
    have "0 < numBits (m div 2)" using pos by (subst numBits.simps) simp
    then have "numBits m - 1 = Suc (numBits (m div 2) - 1)" using nb by simp
    then have "(2::nat) ^ (numBits m - 1) = 2 * 2 ^ (numBits (m div 2) - 1)" by simp
    also have "\<dots> \<le> 2 * (m div 2)" using ih by simp
    also have "\<dots> \<le> m" by simp
    finally show ?thesis .
  qed
qed

lemma toDouble_exact: 
  assumes "m < 2 ^ 53"
  shows "toDouble m = Some m"
proof -
  have "numBits m \<le> 53" using assms by (rule numBits_le)
  then have e: "numBits m - 53 = 0" by simp
  have "m < 2 ^ 1024" 
  proof -
    have "(2::nat) ^ 53 \<le> 2 ^ 1024" by (rule power_increasing) simp_all
    then show ?thesis using assms by linarith
  qed
  then show ?thesis by (simp add: toDouble_def e Let_def)
qed

lemma toDouble_large:
  assumes "2 ^ 53 \<le> m" and "toDouble m = Some w"
  shows "2 ^ 53 \<le> w"
proof -
  define e where "e = numBits m - 53"
  define q where "q = m div 2 ^ e"
  have "53 < numBits m" using assms(1) by (rule numBits_gt)
  then have e1: "1 \<le> e" and nb: "numBits m - 1 = e + 52" by (simp_all add: e_def)
  have "0 < m" using assms(1) by (simp add: less_le_trans [of 0 "2 ^ 53"])
  then have "2 ^ (e + 52) \<le> m" using numBits_lower [of m] nb by simp
  then have "2 ^ 52 * 2 ^ e \<le> m" by (simp add: power_add mult.commute)
  then have q52: "2 ^ 52 \<le> q" unfolding q_def by (simp add: less_eq_div_iff_mult_less_eq)
  have "(2::nat) ^ 1 \<le> 2 ^ e" using e1 by (intro power_increasing) simp_all
  then have e2: "(2::nat) \<le> 2 ^ e" by simp
  have "(2::nat) ^ 53 = 2 ^ 52 * 2" by simp
  also have "\<dots> \<le> q * 2 ^ e" using q52 e2 by (rule mult_le_mono)
  finally have low: "2 ^ 53 \<le> q * 2 ^ e" .
  have "w = q * 2 ^ e \<or> w = (q + 1) * 2 ^ e"
    using assms(2) unfolding toDouble_def Let_def e_def [symmetric] q_def [symmetric]
    by (auto split: if_splits)
  then show ?thesis using low by (auto simp: add_mult_distrib)
qed

lemma toDouble_lower:
  assumes "toDouble m = Some w" and "k \<le> m" and "k \<le> 2 ^ 53"
  shows "k \<le> w"
proof (cases "m < 2 ^ 53")
  case True
  then have "w = m" using assms(1) by (simp add: toDouble_exact)
  then show ?thesis using assms(2) by simp
next
  case False
  then have "2 ^ 53 \<le> w" using assms(1) toDouble_large [of m w] by simp
  then show ?thesis using assms(3) by simp
qed

lemma readsAs_small:
  assumes "v < 2 ^ 53" and "readsAs v x"
  shows "x = v"
proof (cases "x < 2 ^ 53")
  case True
  then show ?thesis using assms(2) by (simp add: readsAs_def toDouble_exact)
next
  case False
  then have "2 ^ 53 \<le> v" using assms(2) toDouble_large [of x v] by (simp add: readsAs_def)
  then show ?thesis using assms(1) by simp
qed

subsection \<open>Decimal numerals\<close>

lemma digit_cases: "d < 10 \<Longrightarrow> d \<in> {0, 1, 2, 3, 4, 5, 6, 7, 8, 9 :: nat}"
  by auto

lemma of_char_digitChar: "d < 10 \<Longrightarrow> (of_char (digitChar d) :: nat) = 48 + d"
  using digit_cases [of d] by (auto simp: digitChar_def)

lemma digitValue_digitChar: "d < 10 \<Longrightarrow> digitValue (digitChar d) = Some d"
  by (simp add: digitValue_def of_char_digitChar)

lemma isRadixDigit_digitChar: "d < 10 \<Longrightarrow> isRadixDigit 10 (digitChar d)"
  by (simp add: isRadixDigit_def digitValue_digitChar)

lemma decimal_digits: "c \<in> set (decimal n) \<Longrightarrow> \<exists>d<10. c = digitChar d"
proof (induction n rule: decimal.induct)
  case (1 n)
  show ?case
  proof (cases "n < 10")
    case True
    then show ?thesis using "1.prems" by (subst (asm) decimal.simps) auto
  next
    case False
    then have "c \<in> set (decimal (n div 10)) \<or> c = digitChar (n mod 10)"
      using "1.prems" by (subst (asm) decimal.simps) auto
    then show ?thesis
    proof
      assume "c \<in> set (decimal (n div 10))"
      then show ?thesis using "1.IH" False by simp
    next
      assume "c = digitChar (n mod 10)"
      moreover have "n mod 10 < 10" by simp
      ultimately show ?thesis by blast
    qed
  qed
qed

lemma decimal_not_Nil: "decimal n \<noteq> []"
  by (subst decimal.simps) simp

lemma digitsValue_snoc:
  "digitsValue R (Z @ [c]) = digitsValue R Z * R + (case digitValue c of Some d \<Rightarrow> d | None \<Rightarrow> 0)"
  by (simp add: digitsValue_def)

lemma digitsValue_decimal: "digitsValue 10 (decimal n) = n"
proof (induction n rule: decimal.induct)
  case (1 n)
  show ?case
  proof (cases "n < 10")
    case True
    then have "decimal n = [digitChar n]" by (subst decimal.simps) simp
    then show ?thesis using True by (simp add: digitsValue_def digitValue_digitChar)
  next
    case False
    then have d: "decimal n = decimal (n div 10) @ [digitChar (n mod 10)]"
      by (subst decimal.simps) simp
    have "digitsValue 10 (decimal (n div 10)) = n div 10" using "1.IH" False by simp
    then show ?thesis by (simp add: d digitsValue_snoc digitValue_digitChar)
  qed
qed

lemma takeWhile_decimal: "takeWhile (isRadixDigit 10) (decimal n) = decimal n"
proof -
  have "\<forall>c \<in> set (decimal n). isRadixDigit 10 c"
    using decimal_digits isRadixDigit_digitChar by blast
  then show ?thesis by (simp add: takeWhile_eq_all_conv)
qed

lemma length_decimal: "0 < k \<Longrightarrow> n < 10 ^ k \<Longrightarrow> length (decimal n) \<le> k"
proof (induction n arbitrary: k rule: decimal.induct)
  case (1 n)
  show ?case
  proof (cases "n < 10")
    case True
    then have "decimal n = [digitChar n]" by (subst decimal.simps) simp
    then show ?thesis using "1.prems" by simp
  next
    case False
    then have d: "decimal n = decimal (n div 10) @ [digitChar (n mod 10)]"
      by (subst decimal.simps) simp
    obtain j where k: "k = Suc j" using "1.prems"(1) by (cases k) auto
    have "j \<noteq> 0" using False "1.prems"(2) k by (cases j) auto
    moreover have "n div 10 < 10 ^ j" using "1.prems"(2) k by (simp add: less_mult_imp_div_less mult.commute)
    ultimately have "length (decimal (n div 10)) \<le> j" using "1.IH" [of j] False by simp
    then show ?thesis by (simp add: d k)
  qed
qed

subsection \<open>Printing below \<open>2 ^ 53\<close>\<close>

lemma pick_readsAs: "pick v lo hi b = Some x \<Longrightarrow> readsAs v x"
  by (auto simp: pick_def split: if_splits)

lemma shortestFrom_readsAs: "readsAs v v \<Longrightarrow> readsAs v (shortestFrom v e)"
proof (induction e)
  case 0
  then show ?case by (subst shortestFrom.simps) simp
next
  case (Suc e)
  show ?case
  proof (cases "pick v (v div 10 ^ Suc e * 10 ^ Suc e) ((v div 10 ^ Suc e + 1) * 10 ^ Suc e) (even (v div 10 ^ Suc e))")
    case None
    then have "shortestFrom v (Suc e) = shortestFrom v e" by (subst shortestFrom.simps) simp
    then show ?thesis using Suc by simp
  next
    case (Some x)
    then have "shortestFrom v (Suc e) = x" by (subst shortestFrom.simps) simp
    then show ?thesis using pick_readsAs [OF Some] by simp
  qed
qed

lemma shortest_small:
  assumes "v < 2 ^ 53"
  shows "shortest v = v"
proof -
  have "readsAs v v" using assms by (simp add: readsAs_def toDouble_exact)
  then have "readsAs v (shortest v)" unfolding shortest_def by (rule shortestFrom_readsAs)
  then show ?thesis using assms by (rule readsAs_small [rotated])
qed

lemma positiveToString_small:
  assumes "v < 2 ^ 53"
  shows "positiveToString v = decimal v"
proof -
  have "(2::nat) ^ 53 < 10 ^ 16" by simp
  then have "v < 10 ^ 16" using assms by linarith
  then have "length (decimal v) \<le> 16" by (intro length_decimal) simp_all
  then show ?thesis using assms by (simp add: positiveToString_def shortest_small Let_def)
qed

text \<open>The equations that evaluate the operations on a given text or number.\<close>

lemmas evaluation = parseInt_def trimStart_def isNegative_def dropSign_def hasHexPrefix_def
  isStrWhiteSpaceChar_def isRadixDigit_def digitValue_def digitsValue_def numberOf_def
  positiveToString_def shortest_def shortestFrom.simps pick_def decimal.simps digitChar_def
  readsAs_def toDouble_def numBits.simps Let_def stripTrailingZeros_def decimalString_def
  numberToString.simps

lemma toDouble_2_53: "toDouble 9007199254740992 = Some 9007199254740992"
  by (simp add: toDouble_def numBits.simps Let_def)

lemma positiveToString_2_53: "positiveToString 9007199254740992 = decimal 9007199254740992"
  by (simp add: evaluation)

lemma toDouble_safe: 
  assumes "m \<le> 2 ^ 53" shows "toDouble m = Some m"
proof (cases "m < 2 ^ 53")
  case True then show ?thesis by (rule toDouble_exact)
next
  case False
  then have "m = 9007199254740992" using assms by simp
  then show ?thesis by (simp add: toDouble_2_53)
qed

lemma positiveToString_safe: 
  assumes "m \<le> 2 ^ 53" shows "positiveToString m = decimal m"
proof (cases "m < 2 ^ 53")
  case True then show ?thesis by (rule positiveToString_small)
next
  case False
  then have "m = 9007199254740992" using assms by simp
  then show ?thesis by (simp add: positiveToString_2_53)
qed

lemma numberToString_safe:
  assumes "\<bar>n\<bar> \<le> 2 ^ 53"
  shows "numberToString (Fin n) = decimalString n"
proof -
  have z: "decimal 0 = ''0''" by (simp add: decimal.simps digitChar_def)
  have a: "nat \<bar>n\<bar> \<le> 2 ^ 53" using assms by (simp add: nat_le_iff)
  show ?thesis
  proof (cases "n < 0")
    case True
    then have "nat (- n) \<le> 2 ^ 53" using a by simp
    then show ?thesis using True by (simp add: decimalString_def positiveToString_safe numberToString.simps)
  next
    case False
    then have "nat n \<le> 2 ^ 53" using a by simp
    then show ?thesis using False by (simp add: decimalString_def positiveToString_safe z numberToString.simps)
  qed
qed

subsection \<open>parseInt on a text without the hexadecimal prefix\<close>

lemma parseInt_not_hex:
  assumes "\<not> hasHexPrefix (dropSign (trimStart s))"
  shows "parseInt s =
     (case spec_leadingInteger s of
        None \<Rightarrow> NaN
      | Some n \<Rightarrow> if n = 0 then (if isNegative (trimStart s) then NegZero else Fin 0)
                  else numberOf (isNegative (trimStart s)) (nat \<bar>n\<bar>))"
  using assms by (simp add: parseInt_def spec_leadingInteger_def Let_def)

subsection \<open>Reading a decimal numeral back\<close>

lemma digitChar_not_space: "d < 10 \<Longrightarrow> \<not> isStrWhiteSpaceChar (digitChar d)"
  by (simp add: isStrWhiteSpaceChar_def of_char_digitChar)

lemma digitChar_not_sign:
  "d < 10 \<Longrightarrow> digitChar d \<noteq> CHR ''+'' \<and> digitChar d \<noteq> CHR ''-'' \<and>
     digitChar d \<noteq> CHR ''x'' \<and> digitChar d \<noteq> CHR ''X''"
  using digit_cases [of d] by (auto simp: digitChar_def)

lemma decimal_Cons:
  obtains c cs where "decimal n = c # cs"
  using decimal_not_Nil [of n] by (cases "decimal n") auto

lemma trimStart_decimal: "trimStart (decimal n) = decimal n"
proof -
  obtain c cs where d: "decimal n = c # cs" by (rule decimal_Cons)
  then have "c \<in> set (decimal n)" by simp
  then obtain k where "k < 10" "c = digitChar k" using decimal_digits by blast
  then have "\<not> isStrWhiteSpaceChar c" by (simp add: digitChar_not_space)
  then show ?thesis by (simp add: trimStart_def d)
qed

lemma sign_decimal: "\<not> isNegative (decimal n) \<and> dropSign (decimal n) = decimal n"
proof -
  obtain c cs where d: "decimal n = c # cs" by (rule decimal_Cons)
  then have "c \<in> set (decimal n)" by simp
  then obtain k where k: "k < 10" "c = digitChar k" using decimal_digits by blast
  have "c \<noteq> CHR ''+'' \<and> c \<noteq> CHR ''-''" using digitChar_not_sign [OF k(1)] k(2) by simp
  then show ?thesis by (simp add: isNegative_def dropSign_def d)
qed

lemma hasHexPrefix_decimal: "\<not> hasHexPrefix (decimal n)"
proof
  assume h: "hasHexPrefix (decimal n)"
  then obtain a b r where d: "decimal n = a # b # r" and b: "b = CHR ''x'' \<or> b = CHR ''X''"
    by (auto simp: hasHexPrefix_def split: list.splits)
  from d have "b \<in> set (decimal n)" by simp
  then obtain k where k: "k < 10" "b = digitChar k" using decimal_digits by blast
  show False using b digitChar_not_sign [OF k(1)] k(2) by simp
qed

lemma minus_not_space: "\<not> isStrWhiteSpaceChar (CHR ''-'')"
  by (simp add: isStrWhiteSpaceChar_def)

lemma prefix_decimalString:
  "trimStart (decimalString n) = decimalString n \<and>
   isNegative (decimalString n) = (n < 0) \<and>
   dropSign (decimalString n) = decimal (nat \<bar>n\<bar>)"
proof (cases "n < 0")
  case True
  then have "nat \<bar>n\<bar> = nat (- n)" by simp
  then show ?thesis using True
    by (simp add: decimalString_def trimStart_def minus_not_space isNegative_def dropSign_def)
next
  case False
  then have "nat \<bar>n\<bar> = nat n" by simp
  then show ?thesis using False by (simp add: decimalString_def trimStart_decimal sign_decimal)
qed

lemma spec_leadingInteger_decimalString: "spec_leadingInteger (decimalString n) = Some n"
  by (simp add: spec_leadingInteger_def prefix_decimalString takeWhile_decimal decimal_not_Nil
      digitsValue_decimal Let_def)

lemma parseInt_decimalString:
  "parseInt (decimalString n) = (if n = 0 then Fin 0 else numberOf (n < 0) (nat \<bar>n\<bar>))"
proof -
  have "\<not> hasHexPrefix (dropSign (trimStart (decimalString n)))"
    by (simp add: prefix_decimalString hasHexPrefix_decimal)
  then show ?thesis
    by (simp add: parseInt_not_hex spec_leadingInteger_decimalString prefix_decimalString)
qed

lemma parseInt_decimalString_safe:
  assumes "\<bar>n\<bar> \<le> 2 ^ 53"
  shows "parseInt (decimalString n) = Fin n"
proof -
  have "nat \<bar>n\<bar> \<le> 2 ^ 53" using assms by (simp add: nat_le_iff)
  then have "toDouble (nat \<bar>n\<bar>) = Some (nat \<bar>n\<bar>)" by (rule toDouble_safe)
  then show ?thesis by (auto simp: parseInt_decimalString numberOf_def)
qed

subsection \<open>The two branches of the handler\<close>

lemma rangeCheck_iff: "(greaterEq x (Fin 0) \<and> lessEq x (Fin 5)) = inRange x"
  by (cases x) (auto simp: greaterEq_def lessEq_def inRange_def split: bool.splits)

lemma handleNumberChange_accept:
  "inRange (parseInt rawText) \<Longrightarrow>
     handleNumberChange rawText st = st\<lparr>number := parseInt rawText, isInvalidNumber := None\<rparr>"
  by (simp add: handleNumberChange_def rangeCheck_iff)

lemma handleNumberChange_reject:
  "\<not> inRange (parseInt rawText) \<Longrightarrow>
     handleNumberChange rawText st =
       st\<lparr>isInvalidNumber := Some (numberToString (parseInt rawText) @ '' is not a valid number!'')\<rparr>"
  by (simp add: handleNumberChange_def rangeCheck_iff)

lemma attemptUpdate_accept:
  "inRange (parseInt rawText) \<Longrightarrow>
     attemptUpdate rawText st =
       (Accepted (parseInt rawText), st\<lparr>number := parseInt rawText, isInvalidNumber := None\<rparr>)"
  by (simp add: attemptUpdate_def handleNumberChange_accept rangeCheck_iff Let_def)

lemma attemptUpdate_reject:
  "\<not> inRange (parseInt rawText) \<Longrightarrow>
     attemptUpdate rawText st =
       (Rejected (numberToString (parseInt rawText) @ '' is not a valid number!''),
        st\<lparr>isInvalidNumber := Some (numberToString (parseInt rawText) @ '' is not a valid number!'')\<rparr>)"
  by (simp add: attemptUpdate_def handleNumberChange_reject rangeCheck_iff Let_def)

lemma inRange_Fin: "inRange (Fin n) = (0 \<le> n \<and> n \<le> 5)"
  by (simp add: inRange_def)

lemma attemptUpdate_in_range:
  assumes "0 \<le> n" "n \<le> 5"
  shows "attemptUpdate (decimalString n) st =
           (Accepted (Fin n), st\<lparr>number := Fin n, isInvalidNumber := None\<rparr>)"
proof -
  have "\<bar>n\<bar> \<le> 2 ^ 53" using assms by simp
  then have p: "parseInt (decimalString n) = Fin n" by (rule parseInt_decimalString_safe)
  have "inRange (parseInt (decimalString n))" using assms by (simp add: p inRange_Fin)
  then show ?thesis using attemptUpdate_accept [of "decimalString n" st] by (simp add: p)
qed

lemma parseInt_decimalString_outside:
  assumes "n < 0 \<or> 5 < n"
  shows "\<not> inRange (parseInt (decimalString n))"
proof (cases "toDouble (nat \<bar>n\<bar>)")
  case None
  then show ?thesis using assms
    by (auto simp: parseInt_decimalString numberOf_def inRange_def)
next
  case (Some w)
  show ?thesis
  proof (cases "n < 0")
    case True
    then have "1 \<le> nat \<bar>n\<bar>" by simp
    then have "1 \<le> w" using toDouble_lower [OF Some, of 1] by simp
    then show ?thesis using True Some
      by (simp add: parseInt_decimalString numberOf_def inRange_Fin)
  next
    case False
    then have "6 \<le> nat \<bar>n\<bar>" using assms by simp
    then have "6 \<le> w" using toDouble_lower [OF Some, of 6] by simp
    then show ?thesis using False assms Some
      by (simp add: parseInt_decimalString numberOf_def inRange_Fin)
  qed
qed

lemma handleNumberChange_inRange:
  "inRange (number st) \<Longrightarrow> inRange (number (handleNumberChange rawText st))"
  by (cases "inRange (parseInt rawText)")
     (simp_all add: handleNumberChange_accept handleNumberChange_reject)

lemma foldl_inRange:
  "inRange (number st) \<Longrightarrow>
     inRange (number (foldl (\<lambda>st rawText. handleNumberChange rawText st) st events))"
  by (induction events arbitrary: st) (simp_all add: handleNumberChange_inRange)

lemma inRange_NaN: "\<not> inRange NaN"
  by (simp add: inRange_def)


subsection \<open>Evaluation at the texts of the examples\<close>

lemma parseInt_7_9: "parseInt ''7.9'' = Fin 7"
  by (simp add: evaluation)

lemma parseInt_abc: "parseInt ''abc'' = NaN"
  by (simp add: evaluation)


lemma parseInt_3: "parseInt ''3'' = Fin 3"
  by (simp add: evaluation)

lemma parseInt_9: "parseInt ''9'' = Fin 9"
  by (simp add: evaluation)

lemma parseInt_2: "parseInt ''2'' = Fin 2"
  by (simp add: evaluation)

lemma numberToString_7: "numberToString (Fin 7) = ''7''"
  by (simp add: evaluation)

lemma numberToString_9: "numberToString (Fin 9) = ''9''"
  by (simp add: evaluation)


lemma numberToString_NaN: "numberToString NaN = ''NaN''"
  by (simp add: numberToString.simps)

lemma decimalString_3: "decimalString 3 = ''3''"
  by (simp add: evaluation)

lemma decimalString_9: "decimalString 9 = ''9''"
  by (simp add: evaluation)

lemma decimalString_2_53_1: "decimalString 9007199254740993 = ''9007199254740993''"
  by (simp add: evaluation)

lemma parseInt_2_53_1: "parseInt ''9007199254740993'' = Fin 9007199254740992"
  by (simp add: evaluation)

lemma numberToString_2_53: "numberToString (Fin 9007199254740992) = ''9007199254740992''"
  by (simp add: evaluation)


lemma attemptUpdate_9:
  "attemptUpdate ''9'' st =
     (Rejected ''9 is not a valid number!'', st\<lparr>isInvalidNumber := Some ''9 is not a valid number!''\<rparr>)"
proof -
  have "\<not> inRange (parseInt ''9'')" by (simp add: parseInt_9 inRange_Fin)
  then show ?thesis by (simp add: attemptUpdate_reject parseInt_9 numberToString_9)
qed

subsection \<open>parseInt on the shapes of a text\<close>

















subsection \<open>The handler on an event\<close>

lemma handleNumberChange_event_raises:
  "handleNumberChange_event \<lparr>target = None\<rparr> st = Inl TypeError"
  "handleNumberChange_event \<lparr>target = Some VSymbol\<rparr> st = Inl TypeError"
  by (simp_all add: handleNumberChange_event_def ToString_def)

lemma attemptUpdate_2_after_9:
  "attemptUpdate ''2'' (Parent\<lparr>number := Fin 3, isInvalidNumber := Some ''9 is not a valid number!''\<rparr>) =
     (Accepted (Fin 2), Parent\<lparr>number := Fin 2, isInvalidNumber := None\<rparr>)"
proof -
  have "inRange (parseInt ''2'')" by (simp add: parseInt_2 inRange_Fin)
  then show ?thesis by (simp add: attemptUpdate_accept parseInt_2)
qed

section \<open>The claims\<close>

text \<open>
  Claim C1. For every integer \<open>n\<close> with \<open>0 \<le> n \<le> 5\<close>, \<^verbatim>\<open>attemptUpdate\<close> on the decimal
  string of \<open>n\<close>, from any state, commits the number \<open>n\<close>, clears the message and yields
  the outcome \<open>Accepted n\<close>.
\<close>

theorem attemptUpdate_accepts_decimal:
  assumes "0 \<le> n" and "n \<le> 5"
  shows "attemptUpdate (decimalString n) st =
           (Accepted (Fin n), st\<lparr>number := Fin n, isInvalidNumber := None\<rparr>)"
  using assms by (rule attemptUpdate_in_range)

theorem attemptUpdate_accepts_decimal_witness:
  "attemptUpdate ''3'' Parent =
     (Accepted (Fin 3), Parent\<lparr>number := Fin 3, isInvalidNumber := None\<rparr>)"
  using attemptUpdate_accepts_decimal [where n = 3 and st = Parent]
  by (simp add: decimalString_3)

text \<open>
  Claim C2, as stated, for every integer \<open>n\<close> outside \<open>[0, 5]\<close>: the message of the
  rejection contains the decimal string of \<open>n\<close>. It fails at \<open>n = 2 ^ 53 + 1\<close>, which is
  not a double: \<^verbatim>\<open>parseInt\<close> rounds it to \<open>2 ^ 53\<close>, and the message shows the rounded
  number.
\<close>

theorem rounded_message_counterexample:
  "(5 :: int) < 9007199254740993 \<and>
   attemptUpdate (decimalString 9007199254740993) Parent =
     (Rejected ''9007199254740992 is not a valid number!'',
      Parent\<lparr>isInvalidNumber := Some ''9007199254740992 is not a valid number!''\<rparr>) \<and>
   \<not> sublist (decimalString 9007199254740993) ''9007199254740992 is not a valid number!''"
proof -
  have "\<not> inRange (parseInt ''9007199254740993'')"
    by (simp add: parseInt_2_53_1 inRange_Fin)
  then have "attemptUpdate ''9007199254740993'' Parent =
     (Rejected ''9007199254740992 is not a valid number!'',
      Parent\<lparr>isInvalidNumber := Some ''9007199254740992 is not a valid number!''\<rparr>)"
    by (simp add: attemptUpdate_reject parseInt_2_53_1 numberToString_2_53)
  moreover have "\<not> sublist ''9007199254740993'' ''9007199254740992 is not a valid number!''"
  proof
    assume "sublist ''9007199254740993'' ''9007199254740992 is not a valid number!''"
    then have "set ''9007199254740993'' \<subseteq> set ''9007199254740992 is not a valid number!''"
      by (rule set_mono_sublist)
    then show False by simp
  qed
  ultimately show ?thesis by (simp add: decimalString_2_53_1)
qed

text \<open>
  Claim C2, amended. For every integer \<open>n\<close> with \<open>n < 0\<close> or \<open>n > 5\<close>,
  \<^verbatim>\<open>attemptUpdate\<close> on the decimal string of \<open>n\<close>, from any state, yields \<open>Rejected\<close>,
  leaves the number unchanged and sets the message to a non-empty string; when
  \<open>\<bar>n\<bar> \<le> 2 ^ 53\<close> the message is the decimal string of \<open>n\<close> followed by
  \<^verbatim>\<open> is not a valid number!\<close>, and so contains the decimal string of \<open>n\<close>.
\<close>

theorem attemptUpdate_rejects_decimal:
  assumes "n < 0 \<or> 5 < n"
  shows "attemptUpdate (decimalString n) st =
           (Rejected (numberToString (parseInt (decimalString n)) @ '' is not a valid number!''),
            st\<lparr>isInvalidNumber :=
                 Some (numberToString (parseInt (decimalString n)) @ '' is not a valid number!'')\<rparr>) \<and>
         number (snd (attemptUpdate (decimalString n) st)) = number st \<and>
         numberToString (parseInt (decimalString n)) @ '' is not a valid number!'' \<noteq> [] \<and>
         (\<bar>n\<bar> \<le> 2 ^ 53 \<longrightarrow>
            numberToString (parseInt (decimalString n)) = decimalString n \<and>
            sublist (decimalString n)
              (numberToString (parseInt (decimalString n)) @ '' is not a valid number!''))"
proof -
  have r: "\<not> inRange (parseInt (decimalString n))"
    using assms by (rule parseInt_decimalString_outside)
  have "numberToString (parseInt (decimalString n)) = decimalString n" if "\<bar>n\<bar> \<le> 2 ^ 53"
    using that by (simp add: parseInt_decimalString_safe numberToString_safe)
  then show ?thesis using attemptUpdate_reject [OF r, of st] by simp
qed

theorem attemptUpdate_rejects_decimal_witness:
  "((9 :: int) < 0 \<or> (5 :: int) < 9) \<and> \<bar>9 :: int\<bar> \<le> 2 ^ 53 \<and>
   attemptUpdate ''9'' Parent =
     (Rejected ''9 is not a valid number!'',
      Parent\<lparr>isInvalidNumber := Some ''9 is not a valid number!''\<rparr>) \<and>
   number (snd (attemptUpdate ''9'' Parent)) = number Parent \<and>
   sublist ''9'' ''9 is not a valid number!''"
  using attemptUpdate_rejects_decimal [where n = 9 and st = Parent]
  by (auto simp: decimalString_9)

text \<open>
  Claim C3. The number is always within the closed range \<open>[0, 5]\<close>: it is 0 in the
  initial state, it is in the range after every sequence of change events, every call
  of the handler keeps it in the range, and a call changes it only when the parsed value
  passes the range check.
\<close>

theorem number_always_in_range:
  "number Parent = Fin 0 \<and>
   inRange (number (run events)) \<and>
   (inRange (number st) \<longrightarrow> inRange (number (handleNumberChange rawText st))) \<and>
   (number (handleNumberChange rawText st) \<noteq> number st \<longrightarrow> inRange (parseInt rawText))"
proof -
  have i: "inRange (number Parent)" by (simp add: Parent_def inRange_Fin)
  have "inRange (number (run events))" unfolding run_def using i by (rule foldl_inRange)
  moreover have "number (handleNumberChange rawText st) \<noteq> number st \<longrightarrow> inRange (parseInt rawText)"
    by (cases "inRange (parseInt rawText)") (simp_all add: handleNumberChange_reject)
  ultimately show ?thesis by (simp add: handleNumberChange_inRange Parent_def)
qed

theorem number_always_in_range_witness:
  "inRange (number Parent) \<and> inRange (number (handleNumberChange ''3'' Parent)) \<and>
   number (handleNumberChange ''3'' Parent) \<noteq> number Parent \<and> inRange (parseInt ''3'') \<and>
   inRange (number (run [''9'', ''3'']))"
proof -
  have "inRange (parseInt ''3'')" by (simp add: parseInt_3 inRange_Fin)
  then have "handleNumberChange ''3'' Parent = Parent\<lparr>number := Fin 3, isInvalidNumber := None\<rparr>"
    by (simp add: handleNumberChange_accept parseInt_3)
  then show ?thesis
    using number_always_in_range
      [where events = "[''9'', ''3'']" and st = Parent and rawText = "''3''"]
    by (simp add: Parent_def parseInt_3 inRange_Fin)
qed

text \<open>
  Claim C4, as stated: a call of \<^verbatim>\<open>attemptUpdate\<close> never changes both state cells. It
  fails at the third step of the scenario of the specification: from the number 3 with
  the message \<^verbatim>\<open>9 is not a valid number!\<close> the text \<^verbatim>\<open>2\<close> changes the number to 2 and
  clears the message.
\<close>

theorem both_cells_change_counterexample:
  "number (snd (attemptUpdate ''2''
      (Parent\<lparr>number := Fin 3, isInvalidNumber := Some ''9 is not a valid number!''\<rparr>))) \<noteq>
   number (Parent\<lparr>number := Fin 3, isInvalidNumber := Some ''9 is not a valid number!''\<rparr>) \<and>
   isInvalidNumber (snd (attemptUpdate ''2''
      (Parent\<lparr>number := Fin 3, isInvalidNumber := Some ''9 is not a valid number!''\<rparr>))) \<noteq>
   isInvalidNumber (Parent\<lparr>number := Fin 3, isInvalidNumber := Some ''9 is not a valid number!''\<rparr>)"
  by (simp add: attemptUpdate_2_after_9)

text \<open>
  Claim C4, amended. A call of \<^verbatim>\<open>attemptUpdate\<close> gives at most one state cell a fresh
  value: an accepted text sets the number to the parsed number and clears the message, a
  rejected text leaves the number as it was and sets the message to a non-empty string.
  Both cells change in one call only when the text is accepted and a message that was
  present is cleared. After the call the message is present exactly when the call was
  rejected.
\<close>

theorem one_fresh_cell_per_event:
  "(case attemptUpdate rawText st of
      (Accepted v, st') \<Rightarrow> number st' = v \<and> isInvalidNumber st' = None
    | (Rejected m, st') \<Rightarrow>
        number st' = number st \<and> isInvalidNumber st' = Some m \<and> m \<noteq> []) \<and>
   (number (snd (attemptUpdate rawText st)) \<noteq> number st \<and>
    isInvalidNumber (snd (attemptUpdate rawText st)) \<noteq> isInvalidNumber st \<longrightarrow>
      fst (attemptUpdate rawText st) = Accepted (parseInt rawText) \<and>
      number (snd (attemptUpdate rawText st)) = parseInt rawText \<and>
      isInvalidNumber (snd (attemptUpdate rawText st)) = None \<and>
      isInvalidNumber st \<noteq> None) \<and>
   (isInvalidNumber (snd (attemptUpdate rawText st)) \<noteq> None) =
     (case fst (attemptUpdate rawText st) of Accepted v \<Rightarrow> False | Rejected m \<Rightarrow> True)"
  by (cases "inRange (parseInt rawText)"; cases "isInvalidNumber st")
     (auto simp: attemptUpdate_accept attemptUpdate_reject)

theorem one_fresh_cell_per_event_witness:
  "attemptUpdate ''2''
      (Parent\<lparr>number := Fin 3, isInvalidNumber := Some ''9 is not a valid number!''\<rparr>) =
     (Accepted (Fin 2), Parent\<lparr>number := Fin 2, isInvalidNumber := None\<rparr>) \<and>
   fst (attemptUpdate ''9'' Parent) = Rejected ''9 is not a valid number!'' \<and>
   number (snd (attemptUpdate ''9'' Parent)) = number Parent \<and>
   isInvalidNumber (snd (attemptUpdate ''9'' Parent)) = Some ''9 is not a valid number!''"
  using one_fresh_cell_per_event [where rawText = "''2''"
      and st = "Parent\<lparr>number := Fin 3, isInvalidNumber := Some ''9 is not a valid number!''\<rparr>"]
    one_fresh_cell_per_event [where rawText = "''9''" and st = Parent]
  by (simp add: attemptUpdate_2_after_9 attemptUpdate_9)




text \<open>
  Claim C6. A text that does not parse to a number goes through the same branch as a
  number out of range: in both cases \<^verbatim>\<open>attemptUpdate\<close> yields \<open>Rejected\<close> with the message
  built from the parsed value, sets the message cell to it and leaves the number
  unchanged; parse failure has no outcome of its own.
\<close>

theorem unparseable_rejected_like_out_of_range:
  assumes "parseInt rawText = NaN \<or> \<not> inRange (parseInt rawText)"
  shows "attemptUpdate rawText st =
           (Rejected (numberToString (parseInt rawText) @ '' is not a valid number!''),
            st\<lparr>isInvalidNumber :=
                 Some (numberToString (parseInt rawText) @ '' is not a valid number!'')\<rparr>) \<and>
         number (snd (attemptUpdate rawText st)) = number st"
proof -
  have "\<not> inRange (parseInt rawText)" using assms inRange_NaN by auto
  then show ?thesis by (simp add: attemptUpdate_reject)
qed

theorem unparseable_rejected_like_out_of_range_witness:
  "parseInt ''abc'' = NaN \<and>
   attemptUpdate ''abc'' Parent =
     (Rejected ''NaN is not a valid number!'',
      Parent\<lparr>isInvalidNumber := Some ''NaN is not a valid number!''\<rparr>) \<and>
   number (snd (attemptUpdate ''abc'' Parent)) = Fin 0"
  using unparseable_rejected_like_out_of_range [where rawText = "''abc''" and st = Parent]
  by (simp add: parseInt_abc numberToString_NaN Parent_def)



text \<open>
  Claim C8. For every integer \<open>n\<close> with \<open>0 \<le> n \<le> 5\<close> and every state, two calls of
  \<^verbatim>\<open>attemptUpdate\<close> in a row with the decimal string of \<open>n\<close> leave the number \<open>n\<close> and no
  message after the first call and after the second, and the second call does not
  change the state.
\<close>

theorem attemptUpdate_idempotent:
  assumes "0 \<le> n" and "n \<le> 5"
  shows "let s1 = snd (attemptUpdate (decimalString n) st);
             s2 = snd (attemptUpdate (decimalString n) s1)
         in number s1 = Fin n \<and> isInvalidNumber s1 = None \<and>
            number s2 = Fin n \<and> isInvalidNumber s2 = None \<and> s2 = s1"
  using assms by (simp add: attemptUpdate_in_range Let_def)

theorem attemptUpdate_idempotent_witness:
  "let s1 = snd (attemptUpdate ''3'' Parent);
       s2 = snd (attemptUpdate ''3'' s1)
   in number s1 = Fin 3 \<and> isInvalidNumber s1 = None \<and>
      number s2 = Fin 3 \<and> isInvalidNumber s2 = None \<and> s2 = s1"
  using attemptUpdate_idempotent [where n = 3 and st = Parent]
  by (simp add: decimalString_3)

text \<open>
  Claim C9. From the initial state (number 0, no message) the calls
  \<^verbatim>\<open>attemptUpdate("3")\<close>, \<^verbatim>\<open>attemptUpdate("9")\<close>, \<^verbatim>\<open>attemptUpdate("2")\<close> give in order the
  states (3, no message), (3, message \<^verbatim>\<open>9 is not a valid number!\<close>) and (2, no message).
\<close>

theorem scenario_3_9_2:
  "number Parent = Fin 0 \<and> isInvalidNumber Parent = None \<and>
   (let s1 = snd (attemptUpdate ''3'' Parent);
        s2 = snd (attemptUpdate ''9'' s1);
        s3 = snd (attemptUpdate ''2'' s2)
    in number s1 = Fin 3 \<and> isInvalidNumber s1 = None \<and>
       number s2 = Fin 3 \<and> isInvalidNumber s2 = Some ''9 is not a valid number!'' \<and>
       number s3 = Fin 2 \<and> isInvalidNumber s3 = None)"
proof -
  have "inRange (parseInt ''3'')" "inRange (parseInt ''2'')"
    by (simp_all add: parseInt_3 parseInt_2 inRange_Fin)
  then show ?thesis
    by (simp add: attemptUpdate_accept attemptUpdate_9 parseInt_3 parseInt_2 Parent_def Let_def)
qed

text \<open>
  Claim C10. On every rejection the message is the parsed value, printed as a Number,
  followed by \<^verbatim>\<open> is not a valid number!\<close>; it is built from the parsed value and not from
  the raw text. For every text that does not parse the message is
  \<^verbatim>\<open>NaN is not a valid number!\<close>, and for the text \<^verbatim>\<open>7.9\<close> it is \<^verbatim>\<open>7 is not a valid number!\<close>.
\<close>

theorem rejection_message_form:
  "(fst (attemptUpdate rawText st) = Rejected m \<longrightarrow>
      m = numberToString (parseInt rawText) @ '' is not a valid number!'' \<and>
      isInvalidNumber (snd (attemptUpdate rawText st)) = Some m) \<and>
   (parseInt rawText = NaN \<longrightarrow>
      attemptUpdate rawText st =
        (Rejected ''NaN is not a valid number!'',
         st\<lparr>isInvalidNumber := Some ''NaN is not a valid number!''\<rparr>)) \<and>
   attemptUpdate ''7.9'' st =
     (Rejected ''7 is not a valid number!'',
      st\<lparr>isInvalidNumber := Some ''7 is not a valid number!''\<rparr>)"
proof -
  have a: "m = numberToString (parseInt rawText) @ '' is not a valid number!'' \<and>
      isInvalidNumber (snd (attemptUpdate rawText st)) = Some m"
    if r: "fst (attemptUpdate rawText st) = Rejected m"
  proof -
    have "\<not> inRange (parseInt rawText)"
      using r by (cases "inRange (parseInt rawText)") (simp_all add: attemptUpdate_accept)
    then show ?thesis using r by (auto simp: attemptUpdate_reject)
  qed
  have b: "attemptUpdate rawText st =
        (Rejected ''NaN is not a valid number!'',
         st\<lparr>isInvalidNumber := Some ''NaN is not a valid number!''\<rparr>)"
    if "parseInt rawText = NaN"
    using that attemptUpdate_reject [of rawText st] by (simp add: inRange_NaN numberToString_NaN)
  have "\<not> inRange (parseInt ''7.9'')" by (simp add: parseInt_7_9 inRange_Fin)
  then have c: "attemptUpdate ''7.9'' st =
     (Rejected ''7 is not a valid number!'',
      st\<lparr>isInvalidNumber := Some ''7 is not a valid number!''\<rparr>)"
    by (simp add: attemptUpdate_reject parseInt_7_9 numberToString_7)
  show ?thesis using a b c by blast
qed

theorem rejection_message_form_witness:
  "fst (attemptUpdate ''9'' Parent) = Rejected ''9 is not a valid number!'' \<and>
   isInvalidNumber (snd (attemptUpdate ''9'' Parent)) = Some ''9 is not a valid number!'' \<and>
   parseInt ''abc'' = NaN \<and>
   attemptUpdate ''abc'' Parent =
     (Rejected ''NaN is not a valid number!'',
      Parent\<lparr>isInvalidNumber := Some ''NaN is not a valid number!''\<rparr>)"
  using rejection_message_form
      [where rawText = "''9''" and st = Parent and m = "''9 is not a valid number!''"]
    rejection_message_form [where rawText = "''abc''" and st = Parent and m = "[]"]
  by (simp add: parseInt_abc attemptUpdate_9)

end
